theory Spec2Isabelle
  imports Complex_Main
begin

section \<open>The view state of \<open>BlogPostsWithPopup\<close> (src/App.jsx)\<close>

text \<open>
  A post as the component consumes it: \<open>post.id\<close>, \<open>post.title\<close> and \<open>post.body\<close>.
  The field \<open>id\<close> is named \<open>post_id\<close> here, \<open>id\<close> being the identity function of HOL.
\<close>

record post =
  post_id :: int
  title :: string
  body :: string

text \<open>
  The two imported image modules (lines 2-3). The bundler resolves each to a non-empty
  URL string, so both are truthy values of JavaScript.
\<close>

datatype asset = successImage | errorImage

text \<open>
  The four \<open>useState\<close> cells of lines 17-20. \<open>error\<close> holds \<open>null\<close> or a string,
  \<open>popupImage\<close> holds \<open>null\<close> or one of the two assets.
\<close>

record view_state =
  posts :: "post list"
  error :: "string option"
  loading :: bool
  popupImage :: "asset option"

definition initial_state :: view_state where
  "initial_state = \<lparr>posts = [], error = None, loading = True, popupImage = None\<rparr>"

definition setPosts :: "post list \<Rightarrow> view_state \<Rightarrow> view_state" where
  "setPosts v s = s\<lparr>posts := v\<rparr>"

definition setError :: "string option \<Rightarrow> view_state \<Rightarrow> view_state" where
  "setError v s = s\<lparr>error := v\<rparr>"

definition setLoading :: "bool \<Rightarrow> view_state \<Rightarrow> view_state" where
  "setLoading v s = s\<lparr>loading := v\<rparr>"

definition setPopupImage :: "asset option \<Rightarrow> view_state \<Rightarrow> view_state" where
  "setPopupImage v s = s\<lparr>popupImage := v\<rparr>"

section \<open>The loader: \<open>fetchPosts\<close> (lines 29-42)\<close>

text \<open>
  What the environment hands to the loader. A thrown value is an \<open>Error\<close> object, of
  which the code reads \<open>message\<close> only. An awaited promise either rejects with such an
  error or resolves with a value. The response of \<open>fetch\<close> carries the flag \<open>ok\<close> and
  the result of \<open>response.json()\<close>, which rejects when the body does not parse and
  resolves with the array of posts otherwise.
\<close>

datatype js_error = Error (message: string)

datatype 'a promise = Rejected js_error | Resolved 'a

record response =
  ok :: bool
  json :: "post list promise"

text \<open>
  The \<open>try\<close> block: \<open>Inl\<close> is the value thrown out of it, \<open>Inr\<close> the state it leaves
  when it runs to its end.
\<close>

definition try_block :: "response promise \<Rightarrow> view_state \<Rightarrow> js_error + view_state" where
  "try_block fetched s =
     (case fetched of
        Rejected err \<Rightarrow> Inl err
      | Resolved response \<Rightarrow>
          if \<not> ok response then Inl (Error ''Failed to fetch posts. Please try again later.'')
          else (case json response of
                  Rejected err \<Rightarrow> Inl err
                | Resolved data \<Rightarrow> Inr (setPosts data s)))"

text \<open>The whole of \<open>fetchPosts\<close>: the \<open>try\<close> block, the \<open>catch\<close> clause, then \<open>finally\<close>.\<close>

definition fetchPosts :: "response promise \<Rightarrow> view_state \<Rightarrow> view_state" where
  "fetchPosts fetched s =
     setLoading False
       (case try_block fetched s of
          Inl err \<Rightarrow> setError (Some (message err)) s
        | Inr s' \<Rightarrow> s')"

section \<open>The popup trigger: \<open>handleButtonClick\<close> (lines 53-63)\<close>

text \<open>
  The value of \<open>Math.random()\<close> is a parameter. It is a double in the interval from 0
  to 1, and the comparison of two doubles agrees with the comparison of the reals they
  denote.
\<close>

definition handleButtonClick :: "real \<Rightarrow> view_state \<Rightarrow> view_state" where
  "handleButtonClick random s =
     (let isSuccess = random > 0.5 in
      if isSuccess then setError None (setPopupImage (Some successImage) s)
      else setPopupImage (Some errorImage) (setError None s))"

section \<open>The view selector: the body of \<open>BlogPostsWithPopup\<close> (lines 66-111)\<close>

text \<open>
  The element tree the component returns. A JSX child is a text, an element with its
  props and children, the array that \<open>posts.map\<close> returns, or one of the values
  \<open>null\<close> and \<open>false\<close>, for which React renders nothing.
\<close>

datatype prop_value =
  PString string
| PAsset asset
| PStyle "(string \<times> string) list"
| PHandler string
| PKey int

datatype jsx =
  Text string
| Element string "(string \<times> prop_value) list" "jsx list"
| JArray "jsx list"
| JNull
| JFalse

text \<open>
  Truthiness of the \<open>error\<close> cell under \<open>if (error)\<close>, \<open>!error\<close> and \<open>error &&\<close>:
  \<open>null\<close> and the empty string are falsy, every other string is truthy.
\<close>

definition truthy :: "string option \<Rightarrow> bool" where
  "truthy v = (case v of None \<Rightarrow> False | Some str \<Rightarrow> str \<noteq> [])"

text \<open>The child \<open>{error}\<close>: \<open>null\<close> renders nothing, a string is a text.\<close>

definition error_child :: "string option \<Rightarrow> jsx" where
  "error_child v = (case v of None \<Rightarrow> JNull | Some str \<Rightarrow> Text str)"

text \<open>The callback of \<open>posts.map\<close> (lines 102-107).\<close>

definition post_block :: "post \<Rightarrow> jsx" where
  "post_block p =
     Element ''div'' [(''key'', PKey (post_id p)), (''className'', PString ''post'')]
       [Element ''h2'' [] [Text (title p)],
        Element ''p'' [] [Text (body p)]]"

text \<open>The \<open>img\<close> of both popups, with the source and the alternative text it is given.\<close>

definition popup_img :: "asset \<Rightarrow> string \<Rightarrow> jsx" where
  "popup_img src alt =
     Element ''img''
       [(''src'', PAsset src), (''alt'', PString alt),
        (''style'', PStyle [(''maxWidth'', ''600px'')])] []"

definition BlogPostsWithPopup :: "view_state \<Rightarrow> jsx" where
  "BlogPostsWithPopup s =
     (if loading s then Element ''p'' [] [Text ''Loading posts...'']
      else if truthy (error s) then
        Element ''p'' [(''className'', PString ''error'')] [error_child (error s)]
      else
        Element ''div'' []
          [Element ''button'' [(''onClick'', PHandler ''handleButtonClick'')] [Text ''Click Me''],
           (case popupImage s of
              Some img \<Rightarrow>
                if \<not> truthy (error s) then
                  Element ''div'' [(''className'', PString ''popup'')] [popup_img img ''Success'']
                else JNull
            | None \<Rightarrow> JNull),
           (if truthy (error s) \<and> popupImage s = None then
              Element ''div'' [(''className'', PString ''popup'')]
                [popup_img errorImage ''Error'',
                 Element ''p'' [] [error_child (error s)],
                 Text '' '']
            else JNull),
           (if \<not> truthy (error s) \<and> popupImage s = None then
              Element ''div'' []
                [Element ''h1'' [] [Text ''Blog Posts''],
                 JArray (map post_block (posts s))]
            else JFalse)])"

section \<open>Reading a rendered tree\<close>

text \<open>All nodes of a tree, in document order.\<close>

fun nodes :: "jsx \<Rightarrow> jsx list" where
  "nodes (Element t ps cs) = Element t ps cs # concat (map nodes cs)"
| "nodes (JArray cs) = concat (map nodes cs)"
| "nodes (Text str) = [Text str]"
| "nodes JNull = []"
| "nodes JFalse = []"

fun has_tag :: "string \<Rightarrow> jsx \<Rightarrow> bool" where
  "has_tag t (Element t' ps cs) = (t = t')"
| "has_tag t x = False"

fun has_class :: "string \<Rightarrow> jsx \<Rightarrow> bool" where
  "has_class c (Element t ps cs) = (map_of ps ''className'' = Some (PString c))"
| "has_class c x = False"

fun is_text :: "jsx \<Rightarrow> bool" where
  "is_text (Text str) = True"
| "is_text x = False"

definition by_tag :: "string \<Rightarrow> jsx \<Rightarrow> jsx list" where
  "by_tag t x = filter (has_tag t) (nodes x)"

definition by_class :: "string \<Rightarrow> jsx \<Rightarrow> jsx list" where
  "by_class c x = filter (has_class c) (nodes x)"

definition texts :: "jsx \<Rightarrow> jsx list" where
  "texts x = filter is_text (nodes x)"

section \<open>The mounted instance: the effect of line 28 and the events that re-render\<close>

text \<open>
  The component calls \<open>useEffect(effect, [])\<close> on every render. React keeps the
  dependency array of the last commit in the hook and runs the effect after a commit
  when there is no earlier array (the mount) or when some dependency differs from its
  predecessor. \<open>areHookInputsEqual\<close> is that comparison: it walks both arrays up to
  the shorter one.
\<close>

fun areHookInputsEqual :: "nat list \<Rightarrow> nat list option \<Rightarrow> bool" where
  "areHookInputsEqual nextDeps None = False"
| "areHookInputsEqual [] (Some prevDeps) = True"
| "areHookInputsEqual (n # nextDeps) (Some []) = True"
| "areHookInputsEqual (n # nextDeps) (Some (p # prevDeps)) =
     (if n = p then areHookInputsEqual nextDeps (Some prevDeps) else False)"

text \<open>
  A mounted instance: its state cells, the dependency array the effect hook holds
  (\<open>None\<close> before the first commit) and the number of calls of \<open>fetch\<close> issued so far.
\<close>

record mounted =
  state :: view_state
  effect_deps :: "nat list option"
  fetch_calls :: nat

text \<open>
  The effect body (lines 29-44) calls \<open>fetchPosts()\<close> once, and \<open>fetchPosts\<close> calls
  \<open>fetch\<close> once, with no loop and no retry. Its settlement arrives later, as an event.
\<close>

definition effect :: "mounted \<Rightarrow> mounted" where
  "effect i = i\<lparr>fetch_calls := Suc (fetch_calls i)\<rparr>"

definition useEffect :: "nat list \<Rightarrow> mounted \<Rightarrow> mounted" where
  "useEffect nextDeps i =
     (if areHookInputsEqual nextDeps (effect_deps i) then i else effect i)
       \<lparr>effect_deps := Some nextDeps\<rparr>"

text \<open>One render of the component and its commit: the only effect is that of line 28.\<close>

definition render_pass :: "mounted \<Rightarrow> mounted" where
  "render_pass i = useEffect [] i"

definition mount :: mounted where
  "mount = render_pass \<lparr>state = initial_state, effect_deps = None, fetch_calls = 0\<rparr>"

text \<open>
  What can happen to a mounted instance: the fetch settles, the button handler runs
  with a value of \<open>Math.random()\<close>, or the parent re-renders. Each is followed by a
  render of the component.
\<close>

datatype event = Settled "response promise" | Clicked real | Rerender

fun update :: "event \<Rightarrow> view_state \<Rightarrow> view_state" where
  "update (Settled fetched) s = fetchPosts fetched s"
| "update (Clicked random) s = handleButtonClick random s"
| "update Rerender s = s"

definition dispatch :: "event \<Rightarrow> mounted \<Rightarrow> mounted" where
  "dispatch e i = render_pass (i\<lparr>state := update e (state i)\<rparr>)"

fun run :: "event list \<Rightarrow> mounted \<Rightarrow> mounted" where
  "run [] i = i"
| "run (e # es) i = run es (dispatch e i)"

section \<open>Facts about the loader\<close>

lemma try_block_throws_iff:
  "try_block fetched s = Inl err \<longleftrightarrow>
     fetched = Rejected err \<or>
     (\<exists>r. fetched = Resolved r \<and>
        (\<not> ok r \<and> err = Error ''Failed to fetch posts. Please try again later.'' \<or>
         ok r \<and> json r = Rejected err))"
  by (auto simp: try_block_def split: promise.splits)

lemma try_block_returns_iff:
  "try_block fetched s = Inr s' \<longleftrightarrow>
     (\<exists>r data. fetched = Resolved r \<and> ok r \<and> json r = Resolved data \<and> s' = setPosts data s)"
  by (auto simp: try_block_def split: promise.splits)

lemma fetchPosts_popupImage: "popupImage (fetchPosts fetched s) = popupImage s"
  by (simp add: fetchPosts_def try_block_def setLoading_def setError_def setPosts_def
      split: promise.splits)

text \<open>
  Claim C6. Whatever the mount-time fetch does (it rejects, it resolves with a status
  that is not OK, its body fails to parse, or it yields the posts), the state that
  \<open>fetchPosts\<close> leaves has \<open>loading\<close> false.
\<close>

theorem fetchPosts_clears_loading: "loading (fetchPosts fetched s) = False"
  by (simp add: fetchPosts_def setLoading_def)

text \<open>
  Claim C10. The loader writes the cells of its own branch only. When the \<open>try\<close> block
  throws (the fetch failed), \<open>posts\<close> is what it was, and from the initial state it is
  still the empty list. When the \<open>try\<close> block runs to its end (the fetch succeeded),
  \<open>error\<close> is what it was, and from the initial state it is still \<open>null\<close>. In both
  cases \<open>popupImage\<close> is untouched.
\<close>

theorem fetchPosts_frame:
  "(try_block fetched s = Inl err \<longrightarrow>
      posts (fetchPosts fetched s) = posts s \<and>
      popupImage (fetchPosts fetched s) = popupImage s) \<and>
   (try_block fetched s = Inr s' \<longrightarrow>
      error (fetchPosts fetched s) = error s \<and>
      popupImage (fetchPosts fetched s) = popupImage s) \<and>
   (try_block fetched initial_state = Inl err \<longrightarrow>
      posts (fetchPosts fetched initial_state) = []) \<and>
   (try_block fetched initial_state = Inr s' \<longrightarrow>
      error (fetchPosts fetched initial_state) = None)"
proof -
  have thrown: "posts (fetchPosts fetched t) = posts t"
    if "try_block fetched t = Inl err" for t
    using that by (simp add: fetchPosts_def setLoading_def setError_def)
  have returned: "error (fetchPosts fetched t) = error t"
    if "try_block fetched t = Inr t'" for t t'
  proof -
    from that obtain data where "t' = setPosts data t"
      by (auto simp: try_block_returns_iff)
    with that show ?thesis
      by (simp add: fetchPosts_def setLoading_def setPosts_def)
  qed
  show ?thesis
    using thrown [of s] thrown [of initial_state] returned [of s s']
      returned [of initial_state s']
    by (simp add: fetchPosts_popupImage initial_state_def)
qed

theorem fetchPosts_frame_witness:
  "try_block (Resolved \<lparr>ok = False, json = Resolved []\<rparr>) initial_state =
     Inl (Error ''Failed to fetch posts. Please try again later.'') \<and>
   posts (fetchPosts (Resolved \<lparr>ok = False, json = Resolved []\<rparr>) initial_state) = [] \<and>
   try_block (Resolved \<lparr>ok = True, json = Resolved []\<rparr>) initial_state =
     Inr (setPosts [] initial_state) \<and>
   error (fetchPosts (Resolved \<lparr>ok = True, json = Resolved []\<rparr>) initial_state) = None"
proof -
  have thrown: "try_block (Resolved \<lparr>ok = False, json = Resolved []\<rparr>) initial_state =
      Inl (Error ''Failed to fetch posts. Please try again later.'')"
    by (simp add: try_block_def)
  have returned: "try_block (Resolved \<lparr>ok = True, json = Resolved []\<rparr>) initial_state =
      Inr (setPosts [] initial_state)"
    by (simp add: try_block_def)
  from thrown
    fetchPosts_frame [of "Resolved \<lparr>ok = False, json = Resolved []\<rparr>" initial_state
      "Error ''Failed to fetch posts. Please try again later.''" "setPosts [] initial_state"]
  have kept_posts:
    "posts (fetchPosts (Resolved \<lparr>ok = False, json = Resolved []\<rparr>) initial_state) = []"
    by blast
  from returned
    fetchPosts_frame [of "Resolved \<lparr>ok = True, json = Resolved []\<rparr>" initial_state
      "Error []" "setPosts [] initial_state"]
  have kept_error:
    "error (fetchPosts (Resolved \<lparr>ok = True, json = Resolved []\<rparr>) initial_state) = None"
    by blast
  from thrown returned kept_posts kept_error show ?thesis
    by blast
qed

text \<open>
  Claim C2, as amended. A status that is not OK stores the fixed text of line 33. A
  rejected fetch and a body that does not parse store the message of the error that was
  thrown, whatever it is.
\<close>

theorem fetchPosts_stores_thrown_message:
  "error (fetchPosts (Rejected err) s) = Some (message err) \<and>
   error (fetchPosts (Resolved \<lparr>ok = False, json = j\<rparr>) s) =
     Some ''Failed to fetch posts. Please try again later.'' \<and>
   error (fetchPosts (Resolved \<lparr>ok = True, json = Rejected err\<rparr>) s) = Some (message err)"
  by (simp add: fetchPosts_def try_block_def setLoading_def setError_def)

text \<open>
  Claim C2 as stated fails: a fetch rejected with the message \<open>Failed to fetch\<close> and a
  response whose status is not OK leave different texts in \<open>error\<close>.
\<close>

theorem generic_message_counterexample:
  "error (fetchPosts (Rejected (Error ''Failed to fetch'')) initial_state) =
     Some ''Failed to fetch'' \<and>
   error (fetchPosts (Resolved \<lparr>ok = False, json = Resolved []\<rparr>) initial_state) =
     Some ''Failed to fetch posts. Please try again later.'' \<and>
   error (fetchPosts (Rejected (Error ''Failed to fetch'')) initial_state) \<noteq>
     error (fetchPosts (Resolved \<lparr>ok = False, json = Resolved []\<rparr>) initial_state)"
  by (simp add: fetchPosts_def try_block_def setLoading_def setError_def)

section \<open>Facts about the view selector\<close>

lemma post_blocks_by_class:
  "filter (has_class ''post'') (concat (map nodes (map post_block ps))) = map post_block ps"
  by (induction ps) (simp_all add: post_block_def)

lemma post_block_texts: "texts (post_block p) = [Text (title p), Text (body p)]"
  by (simp add: texts_def post_block_def)

text \<open>
  The branch of lines 87-96 is dead: it needs a truthy \<open>error\<close>, and line 69 has
  returned before it for every such state. No state renders the image with the
  alternative text \<open>Error\<close>.
\<close>

lemma error_popup_never_rendered:
  "Element ''img''
     [(''src'', PAsset errorImage), (''alt'', PString ''Error''),
      (''style'', PStyle [(''maxWidth'', ''600px'')])] []
     \<notin> set (nodes (BlogPostsWithPopup s))"
proof -
  have "Element ''img''
      [(''src'', PAsset errorImage), (''alt'', PString ''Error''),
       (''style'', PStyle [(''maxWidth'', ''600px'')])] []
      \<notin> set (concat (map nodes (map post_block ps)))" for ps
    by (induction ps) (simp_all add: post_block_def)
  then show ?thesis
    by (simp add: BlogPostsWithPopup_def popup_img_def error_child_def
        split: option.splits)
qed

text \<open>
  Claim C1, evaluated on the code. After a response whose status is not OK, with no
  click yet, the state has \<open>error\<close> set, \<open>popupImage\<close> null and \<open>loading\<close> false, and
  the component returns the paragraph of line 69 alone: no image, no popup.
\<close>

theorem fetch_failure_renders_paragraph_only:
  "error (fetchPosts (Resolved \<lparr>ok = False, json = Resolved []\<rparr>) initial_state) =
     Some ''Failed to fetch posts. Please try again later.'' \<and>
   popupImage (fetchPosts (Resolved \<lparr>ok = False, json = Resolved []\<rparr>) initial_state) = None \<and>
   loading (fetchPosts (Resolved \<lparr>ok = False, json = Resolved []\<rparr>) initial_state) = False \<and>
   BlogPostsWithPopup (fetchPosts (Resolved \<lparr>ok = False, json = Resolved []\<rparr>) initial_state) =
     Element ''p'' [(''className'', PString ''error'')]
       [Text ''Failed to fetch posts. Please try again later.''] \<and>
   by_tag ''img'' (BlogPostsWithPopup
     (fetchPosts (Resolved \<lparr>ok = False, json = Resolved []\<rparr>) initial_state)) = []"
  by (simp add: fetchPosts_def try_block_def setLoading_def setError_def initial_state_def
      BlogPostsWithPopup_def truthy_def error_child_def by_tag_def)

text \<open>
  Claim C9, as amended. When \<open>loading\<close> is false and \<open>error\<close> is a string that is not
  empty, the component returns the error paragraph alone, and the tree has no button.
\<close>

theorem error_paragraph_only:
  assumes "loading s = False" and "error s = Some msg" and "msg \<noteq> []"
  shows "BlogPostsWithPopup s = Element ''p'' [(''className'', PString ''error'')] [Text msg] \<and>
         by_tag ''button'' (BlogPostsWithPopup s) = []"
  using assms by (simp add: BlogPostsWithPopup_def truthy_def error_child_def by_tag_def)

theorem error_paragraph_only_witness:
  "loading (fetchPosts (Rejected (Error ''Failed to fetch'')) initial_state) = False \<and>
   error (fetchPosts (Rejected (Error ''Failed to fetch'')) initial_state) =
     Some ''Failed to fetch'' \<and>
   ''Failed to fetch'' \<noteq> [] \<and>
   BlogPostsWithPopup (fetchPosts (Rejected (Error ''Failed to fetch'')) initial_state) =
     Element ''p'' [(''className'', PString ''error'')] [Text ''Failed to fetch''] \<and>
   by_tag ''button''
     (BlogPostsWithPopup (fetchPosts (Rejected (Error ''Failed to fetch'')) initial_state)) = []"
proof -
  have l: "loading (fetchPosts (Rejected (Error ''Failed to fetch'')) initial_state) = False"
    by (simp add: fetchPosts_def setLoading_def)
  have e: "error (fetchPosts (Rejected (Error ''Failed to fetch'')) initial_state) =
      Some ''Failed to fetch''"
    by (simp add: fetchPosts_def try_block_def setLoading_def setError_def)
  have n: "''Failed to fetch'' \<noteq> []"
    by simp
  from l e n error_paragraph_only [OF l e n] show ?thesis
    by blast
qed

text \<open>
  Claim C9 as stated fails on the empty string. A fetch rejected with an error whose
  message is empty leaves \<open>loading\<close> false and \<open>error\<close> not null, yet \<open>if (error)\<close>
  does not fire and the tree that is returned holds the button.
\<close>

theorem empty_error_counterexample:
  "loading (fetchPosts (Rejected (Error [])) initial_state) = False \<and>
   error (fetchPosts (Rejected (Error [])) initial_state) \<noteq> None \<and>
   by_tag ''button'' (BlogPostsWithPopup (fetchPosts (Rejected (Error [])) initial_state)) =
     [Element ''button'' [(''onClick'', PHandler ''handleButtonClick'')] [Text ''Click Me'']] \<and>
   BlogPostsWithPopup (fetchPosts (Rejected (Error [])) initial_state) \<noteq>
     Element ''p'' [(''className'', PString ''error'')] [Text []]"
  by (simp add: fetchPosts_def try_block_def setLoading_def setError_def initial_state_def
      BlogPostsWithPopup_def truthy_def by_tag_def)

text \<open>
  Claim C4. Let a fetch succeed with the posts \<open>data\<close>, from a state whose \<open>error\<close> and
  \<open>popupImage\<close> are null. The tree then holds one block of class \<open>post\<close> for each post
  of \<open>data\<close>, as many as \<open>data\<close> has, in the order of \<open>data\<close>, and the texts of each
  block are the title and the body of its post.
\<close>

theorem successful_fetch_renders_posts_in_order:
  assumes "error s = None" and "popupImage s = None"
  shows "by_class ''post''
           (BlogPostsWithPopup (fetchPosts (Resolved \<lparr>ok = True, json = Resolved data\<rparr>) s)) =
           map post_block data \<and>
         length (by_class ''post''
           (BlogPostsWithPopup (fetchPosts (Resolved \<lparr>ok = True, json = Resolved data\<rparr>) s))) =
           length data \<and>
         map texts (by_class ''post''
           (BlogPostsWithPopup (fetchPosts (Resolved \<lparr>ok = True, json = Resolved data\<rparr>) s))) =
           map (\<lambda>p. [Text (title p), Text (body p)]) data"
proof -
  have blocks: "by_class ''post''
      (BlogPostsWithPopup (fetchPosts (Resolved \<lparr>ok = True, json = Resolved data\<rparr>) s)) =
      map post_block data"
    using assms
    by (simp add: by_class_def BlogPostsWithPopup_def fetchPosts_def try_block_def
        setLoading_def setPosts_def truthy_def post_blocks_by_class del: map_map)
  show ?thesis
    by (simp add: blocks post_block_texts)
qed

theorem successful_fetch_renders_posts_in_order_witness:
  "error initial_state = None \<and> popupImage initial_state = None \<and>
   by_class ''post''
     (BlogPostsWithPopup (fetchPosts (Resolved \<lparr>ok = True, json = Resolved
        [\<lparr>post_id = 1, title = ''first'', body = ''one''\<rparr>,
         \<lparr>post_id = 2, title = ''second'', body = ''two''\<rparr>]\<rparr>) initial_state)) =
     [post_block \<lparr>post_id = 1, title = ''first'', body = ''one''\<rparr>,
      post_block \<lparr>post_id = 2, title = ''second'', body = ''two''\<rparr>] \<and>
   map texts (by_class ''post''
     (BlogPostsWithPopup (fetchPosts (Resolved \<lparr>ok = True, json = Resolved
        [\<lparr>post_id = 1, title = ''first'', body = ''one''\<rparr>,
         \<lparr>post_id = 2, title = ''second'', body = ''two''\<rparr>]\<rparr>) initial_state))) =
     [[Text ''first'', Text ''one''], [Text ''second'', Text ''two'']]"
proof -
  have e: "error initial_state = None" and p: "popupImage initial_state = None"
    by (simp_all add: initial_state_def)
  from e p successful_fetch_renders_posts_in_order [OF e p, of
      "[\<lparr>post_id = 1, title = ''first'', body = ''one''\<rparr>,
        \<lparr>post_id = 2, title = ''second'', body = ''two''\<rparr>]"]
  show ?thesis
    by (simp add: post_block_texts)
qed

text \<open>
  Claim C5. Take any state the loader has left, whatever the fetch did, and run the
  handler with a draw above one half. Then \<open>popupImage\<close> is the success asset and
  \<open>error\<close> is null. The tree is the button followed by a popup that holds one
  \<open>img\<close> element, whose source is the success asset; this is the only image of the
  tree. The tree has no paragraph, and its only text is the label of the button, so
  no error text is shown.
\<close>

theorem success_draw_shows_success_image:
  assumes "random > 0.5"
  shows "popupImage (handleButtonClick random (fetchPosts fetched s)) = Some successImage \<and>
         error (handleButtonClick random (fetchPosts fetched s)) = None \<and>
         BlogPostsWithPopup (handleButtonClick random (fetchPosts fetched s)) =
           Element ''div'' []
             [Element ''button'' [(''onClick'', PHandler ''handleButtonClick'')] [Text ''Click Me''],
              Element ''div'' [(''className'', PString ''popup'')]
                [Element ''img''
                   [(''src'', PAsset successImage), (''alt'', PString ''Success''),
                    (''style'', PStyle [(''maxWidth'', ''600px'')])] []],
              JNull, JFalse] \<and>
         by_tag ''img'' (BlogPostsWithPopup (handleButtonClick random (fetchPosts fetched s))) =
           [Element ''img''
              [(''src'', PAsset successImage), (''alt'', PString ''Success''),
               (''style'', PStyle [(''maxWidth'', ''600px'')])] []] \<and>
         by_tag ''p'' (BlogPostsWithPopup (handleButtonClick random (fetchPosts fetched s))) = [] \<and>
         texts (BlogPostsWithPopup (handleButtonClick random (fetchPosts fetched s))) =
           [Text ''Click Me'']"
  using assms
  by (simp add: handleButtonClick_def fetchPosts_def setLoading_def setError_def
      setPopupImage_def BlogPostsWithPopup_def truthy_def texts_def by_tag_def popup_img_def)

theorem success_draw_shows_success_image_witness:
  "(0.75::real) > 0.5 \<and>
   popupImage (handleButtonClick 0.75
     (fetchPosts (Rejected (Error ''Failed to fetch'')) initial_state)) = Some successImage \<and>
   error (handleButtonClick 0.75
     (fetchPosts (Rejected (Error ''Failed to fetch'')) initial_state)) = None \<and>
   BlogPostsWithPopup (handleButtonClick 0.75
     (fetchPosts (Rejected (Error ''Failed to fetch'')) initial_state)) =
     Element ''div'' []
       [Element ''button'' [(''onClick'', PHandler ''handleButtonClick'')] [Text ''Click Me''],
        Element ''div'' [(''className'', PString ''popup'')]
          [Element ''img''
             [(''src'', PAsset successImage), (''alt'', PString ''Success''),
              (''style'', PStyle [(''maxWidth'', ''600px'')])] []],
        JNull, JFalse] \<and>
   by_tag ''img'' (BlogPostsWithPopup (handleButtonClick 0.75
     (fetchPosts (Rejected (Error ''Failed to fetch'')) initial_state))) =
     [Element ''img''
        [(''src'', PAsset successImage), (''alt'', PString ''Success''),
         (''style'', PStyle [(''maxWidth'', ''600px'')])] []] \<and>
   texts (BlogPostsWithPopup (handleButtonClick 0.75
     (fetchPosts (Rejected (Error ''Failed to fetch'')) initial_state))) = [Text ''Click Me'']"
proof -
  have draw: "(0.75::real) > 0.5"
    by simp
  from draw success_draw_shows_success_image [OF draw, of
      "Rejected (Error ''Failed to fetch'')" initial_state]
  show ?thesis
    by blast
qed

text \<open>
  Claim C3, as amended. Take any state the loader has left, whatever the fetch did,
  and run the handler with a draw that is not above one half. Then \<open>popupImage\<close> is
  the error asset and \<open>error\<close> is null. The tree is the button followed by a popup
  that holds one \<open>img\<close> element, whose source is the error asset; this is the only
  image of the tree. The tree has no paragraph at all, not even an empty one, and its
  only text is the label of the button, so no error text is shown, the text of the
  fetch error included.
\<close>

theorem failure_draw_shows_error_image:
  assumes "\<not> random > 0.5"
  shows "popupImage (handleButtonClick random (fetchPosts fetched s)) = Some errorImage \<and>
         error (handleButtonClick random (fetchPosts fetched s)) = None \<and>
         BlogPostsWithPopup (handleButtonClick random (fetchPosts fetched s)) =
           Element ''div'' []
             [Element ''button'' [(''onClick'', PHandler ''handleButtonClick'')] [Text ''Click Me''],
              Element ''div'' [(''className'', PString ''popup'')]
                [Element ''img''
                   [(''src'', PAsset errorImage), (''alt'', PString ''Success''),
                    (''style'', PStyle [(''maxWidth'', ''600px'')])] []],
              JNull, JFalse] \<and>
         by_tag ''img'' (BlogPostsWithPopup (handleButtonClick random (fetchPosts fetched s))) =
           [Element ''img''
              [(''src'', PAsset errorImage), (''alt'', PString ''Success''),
               (''style'', PStyle [(''maxWidth'', ''600px'')])] []] \<and>
         by_tag ''p'' (BlogPostsWithPopup (handleButtonClick random (fetchPosts fetched s))) = [] \<and>
         texts (BlogPostsWithPopup (handleButtonClick random (fetchPosts fetched s))) =
           [Text ''Click Me'']"
  using assms
  by (simp add: handleButtonClick_def fetchPosts_def setLoading_def setError_def
      setPopupImage_def BlogPostsWithPopup_def truthy_def texts_def by_tag_def popup_img_def)

theorem failure_draw_shows_error_image_witness:
  "\<not> (0.5::real) > 0.5 \<and>
   popupImage (handleButtonClick 0.5
     (fetchPosts (Rejected (Error ''Failed to fetch'')) initial_state)) = Some errorImage \<and>
   error (handleButtonClick 0.5
     (fetchPosts (Rejected (Error ''Failed to fetch'')) initial_state)) = None \<and>
   BlogPostsWithPopup (handleButtonClick 0.5
     (fetchPosts (Rejected (Error ''Failed to fetch'')) initial_state)) =
     Element ''div'' []
       [Element ''button'' [(''onClick'', PHandler ''handleButtonClick'')] [Text ''Click Me''],
        Element ''div'' [(''className'', PString ''popup'')]
          [Element ''img''
             [(''src'', PAsset errorImage), (''alt'', PString ''Success''),
              (''style'', PStyle [(''maxWidth'', ''600px'')])] []],
        JNull, JFalse] \<and>
   by_tag ''img'' (BlogPostsWithPopup (handleButtonClick 0.5
     (fetchPosts (Rejected (Error ''Failed to fetch'')) initial_state))) =
     [Element ''img''
        [(''src'', PAsset errorImage), (''alt'', PString ''Success''),
         (''style'', PStyle [(''maxWidth'', ''600px'')])] []] \<and>
   by_tag ''p'' (BlogPostsWithPopup (handleButtonClick 0.5
     (fetchPosts (Rejected (Error ''Failed to fetch'')) initial_state))) = [] \<and>
   texts (BlogPostsWithPopup (handleButtonClick 0.5
     (fetchPosts (Rejected (Error ''Failed to fetch'')) initial_state))) = [Text ''Click Me'']"
proof -
  have draw: "\<not> (0.5::real) > 0.5"
    by simp
  from draw failure_draw_shows_error_image [OF draw, of
      "Rejected (Error ''Failed to fetch'')" initial_state]
  show ?thesis
    by blast
qed

text \<open>
  Claim C3 as stated fails on the error message. After a fetch rejected with the
  message \<open>Failed to fetch\<close> and a click with the draw one half, the tree holds no
  paragraph, so no error message is rendered with the image, empty or not: the only
  element of class \<open>popup\<close> holds the image alone.
\<close>

theorem empty_error_message_counterexample:
  "by_tag ''p'' (BlogPostsWithPopup (handleButtonClick 0.5
     (fetchPosts (Rejected (Error ''Failed to fetch'')) initial_state))) = [] \<and>
   by_class ''popup'' (BlogPostsWithPopup (handleButtonClick 0.5
     (fetchPosts (Rejected (Error ''Failed to fetch'')) initial_state))) =
     [Element ''div'' [(''className'', PString ''popup'')]
        [Element ''img''
           [(''src'', PAsset errorImage), (''alt'', PString ''Success''),
            (''style'', PStyle [(''maxWidth'', ''600px'')])] []]]"
  by (simp add: handleButtonClick_def fetchPosts_def try_block_def setLoading_def setError_def
      setPopupImage_def initial_state_def BlogPostsWithPopup_def truthy_def by_tag_def
      by_class_def popup_img_def)

section \<open>Facts about the mounted instance\<close>

lemma state_dispatch: "state (dispatch e i) = update e (state i)"
  by (simp add: dispatch_def render_pass_def useEffect_def effect_def)

lemma effect_deps_dispatch: "effect_deps (dispatch e i) = Some []"
  by (simp add: dispatch_def render_pass_def useEffect_def)

lemma fetch_calls_dispatch:
  "effect_deps i = Some [] \<Longrightarrow> fetch_calls (dispatch e i) = fetch_calls i"
  by (simp add: dispatch_def render_pass_def useEffect_def)

lemma fetch_calls_run:
  "effect_deps i = Some [] \<Longrightarrow> fetch_calls (run es i) = fetch_calls i"
proof (induction es arbitrary: i)
  case Nil
  show ?case by simp
next
  case (Cons e es)
  have "fetch_calls (run es (dispatch e i)) = fetch_calls (dispatch e i)"
    by (rule Cons.IH) (rule effect_deps_dispatch)
  with Cons.prems show ?case
    by (simp add: fetch_calls_dispatch)
qed

lemma run_append: "run (es @ es') i = run es' (run es i)"
  by (induction es arbitrary: i) simp_all

lemma popupImage_update:
  "popupImage s \<noteq> None \<Longrightarrow> popupImage (update e s) \<noteq> None"
  by (cases e) (simp_all add: fetchPosts_popupImage handleButtonClick_def setError_def
      setPopupImage_def)

lemma popupImage_clicked: "popupImage (update (Clicked random) s) \<noteq> None"
  by (simp add: handleButtonClick_def setError_def setPopupImage_def)

lemma popupImage_run:
  "popupImage (state i) \<noteq> None \<Longrightarrow> popupImage (state (run es i)) \<noteq> None"
proof (induction es arbitrary: i)
  case Nil
  then show ?case by simp
next
  case (Cons e es)
  from Cons.prems have "popupImage (state (dispatch e i)) \<noteq> None"
    by (simp add: state_dispatch popupImage_update)
  then show ?case
    by (simp add: Cons.IH)
qed

lemma popup_hides_post_list:
  assumes "popupImage s \<noteq> None"
  shows "by_tag ''h1'' (BlogPostsWithPopup s) = []"
    and "by_class ''post'' (BlogPostsWithPopup s) = []"
  using assms
  by (auto simp: BlogPostsWithPopup_def by_tag_def by_class_def popup_img_def error_child_def
      split: option.splits)

text \<open>
  Claim C7. A mounted instance has issued exactly one fetch, and it still has issued
  exactly one after any sequence of settlements, clicks and re-renders: the dependency
  array of the effect is empty, so no later render runs the effect again.
\<close>

theorem one_fetch_per_mount:
  "fetch_calls mount = 1 \<and> fetch_calls (run es mount) = 1"
proof -
  have deps: "effect_deps mount = Some []"
    by (simp add: mount_def render_pass_def useEffect_def)
  have first: "fetch_calls mount = 1"
    by (simp add: mount_def render_pass_def useEffect_def effect_def)
  from fetch_calls_run [OF deps] first show ?thesis
    by simp
qed

text \<open>
  Claim C8. No event sets \<open>popupImage\<close> back to null: when it is not null in an
  instance, it is not null after any sequence of events. Hence, from the first run of
  the button handler on, whatever events come before it and after it, \<open>popupImage\<close> is
  not null and the tree holds neither the heading of the post list nor a post block.
\<close>

theorem popup_never_cleared:
  "(popupImage (state i) \<noteq> None \<longrightarrow> popupImage (state (run es i)) \<noteq> None) \<and>
   popupImage (state (run (before @ Clicked random # es) i)) \<noteq> None \<and>
   by_tag ''h1'' (BlogPostsWithPopup (state (run (before @ Clicked random # es) i))) = [] \<and>
   by_class ''post'' (BlogPostsWithPopup (state (run (before @ Clicked random # es) i))) = []"
proof -
  have "popupImage (state (dispatch (Clicked random) (run before i))) \<noteq> None"
    by (simp only: state_dispatch popupImage_clicked not_False_eq_True)
  then have "popupImage (state (run es (dispatch (Clicked random) (run before i)))) \<noteq> None"
    by (rule popupImage_run)
  then have after: "popupImage (state (run (before @ Clicked random # es) i)) \<noteq> None"
    by (simp add: run_append)
  from after popup_hides_post_list [OF after] popupImage_run [of i es] show ?thesis
    by blast
qed

theorem popup_never_cleared_witness:
  "popupImage (state (run [Clicked 0.75] mount)) \<noteq> None \<and>
   popupImage (state (run [Settled (Rejected (Error ''Failed to fetch'')), Clicked 0.25, Rerender]
     (run [Clicked 0.75] mount))) \<noteq> None"
proof -
  have set: "popupImage (state (run [Clicked 0.75] mount)) \<noteq> None"
    by (simp add: state_dispatch handleButtonClick_def setError_def setPopupImage_def)
  from set popup_never_cleared [of "run [Clicked 0.75] mount"
      "[Settled (Rejected (Error ''Failed to fetch'')), Clicked 0.25, Rerender]"]
  show ?thesis
    by blast
qed

end
